theory Spec2Isabelle
  imports Complex_Main
begin

section \<open>CPU monitor server: a shallow embedding of backend/cpu\_server.py\<close>

text \<open>
  Conventions of the embedding.
  \<^item> Python floats are idealised as \<^typ>\<open>real\<close>: \<open>+\<close>, \<open>*\<close> and \<open>/\<close> are exact, and
    \<open>round(x, 1)\<close> is rounding to one decimal with ties to even. The binary operations
    of the program round after every step, so the model does not tell which tenth a
    successful sampling call returns (for the readings 5.75, 5.75 the program returns
    5.7, the exact quotient rounds to 5.8). What is proved of the sampler below is what
    does not depend on that: the range left by the clamp and the rounding, and the path
    of a failing read, which does no arithmetic.
  \<^item> An exception is a value of \<open>exn\<close>; a computation that may raise returns \<open>exn + 'a\<close>
    with \<open>Inl\<close> for the raise.
  \<^item> What the operating system, the sockets and the import system answer is an argument
    of the function that asks them.
  \<^item> \<open>print\<close> calls are left out: nothing reads standard output back.
\<close>

subsection \<open>Exceptions\<close>

datatype exn =
    ZeroDivisionError
  | AttributeError string
  | ImportError string
  | RuntimeError string
  | OSError string
  | ConnectionResetError string

text \<open>\<open>str(e)\<close>, as the handlers put it into a response.\<close>

fun str :: "exn \<Rightarrow> string" where
  "str ZeroDivisionError = ''division by zero''"
| "str (AttributeError m) = m"
| "str (ImportError m) = m"
| "str (RuntimeError m) = m"
| "str (OSError m) = m"
| "str (ConnectionResetError m) = m"

text \<open>Python's \<open>a / b\<close> on numbers: it raises on a zero divisor.\<close>

definition truediv :: "real \<Rightarrow> real \<Rightarrow> exn + real" where
  "truediv a b = (if b = 0 then Inl ZeroDivisionError else Inr (a / b))"

text \<open>\<open>round(x, 1)\<close>: the nearest multiple of one tenth, a tie going to the even one.\<close>

definition round1 :: "real \<Rightarrow> real" where
  "round1 x =
     (let y = x * 10;
          f = \<lfloor>y\<rfloor>;
          d = y - of_int f
      in of_int (if d < 1 / 2 then f
                 else if 1 / 2 < d then f + 1
                 else if even f then f else f + 1) / 10)"

subsection \<open>class CPUMonitor\<close>

record CPUMonitor =
  current_cpu :: real
  cpu_history :: "real list"
  buffer_size :: nat

text \<open>\<open>__init__\<close>; the priming call \<open>psutil.cpu_percent(interval=0.1)\<close> stores nothing.\<close>

definition CPUMonitor_init :: CPUMonitor where
  "CPUMonitor_init = \<lparr>current_cpu = 0, cpu_history = [], buffer_size = 10\<rparr>"

text \<open>
  \<open>weights = [1 + (i / self.buffer_size) for i in range(len(self.cpu_history))]\<close>,
  for a buffer size \<open>K\<close> and a history of length \<open>L\<close>. The first element divides
  by \<open>K\<close>, so a zero \<open>K\<close> raises as soon as the history is not empty.
\<close>

definition weights :: "nat \<Rightarrow> nat \<Rightarrow> exn + real list" where
  "weights K L =
     (if 0 < L \<and> K = 0 then Inl ZeroDivisionError
      else Inr (map (\<lambda>i. 1 + real i / real K) [0..<L]))"

text \<open>\<open>sum(h * w for h, w in zip(self.cpu_history, weights))\<close>.\<close>

definition weighted_sum :: "real list \<Rightarrow> real list \<Rightarrow> real" where
  "weighted_sum hs ws = sum_list (map (\<lambda>(h, w). h * w) (zip hs ws))"

text \<open>
  The body of the \<open>try\<close> of \<open>get_cpu_percent\<close>. The argument \<open>reading\<close> is what
  \<open>psutil.cpu_percent(interval=None)\<close> does: it raises or returns a number. The
  monitor is returned in both cases, since a raise keeps the assignments made before it.
\<close>

definition get_cpu_percent_try :: "exn + real \<Rightarrow> CPUMonitor \<Rightarrow> (exn + unit) \<times> CPUMonitor" where
  "get_cpu_percent_try reading m =
     (case reading of
        Inl e \<Rightarrow> (Inl e, m)
      | Inr cpu_percent \<Rightarrow>
          (let appended = cpu_history m @ [cpu_percent];
               history = (if buffer_size m < length appended then tl appended else appended);
               m1 = m\<lparr>cpu_history := history\<rparr>
           in case weights (buffer_size m) (length history) of
                Inl e \<Rightarrow> (Inl e, m1)
              | Inr ws \<Rightarrow>
                  (case truediv (weighted_sum history ws) (sum_list ws) of
                     Inl e \<Rightarrow> (Inl e, m1)
                   | Inr avg \<Rightarrow> (Inr (), m1\<lparr>current_cpu := max 0 (min 100 avg)\<rparr>))))"

text \<open>
  \<open>get_cpu_percent\<close>: the \<open>except Exception\<close> clause passes, whatever was raised,
  and the method returns \<open>round(self.current_cpu, 1)\<close>.
\<close>

definition get_cpu_percent :: "exn + real \<Rightarrow> CPUMonitor \<Rightarrow> (exn + real) \<times> CPUMonitor" where
  "get_cpu_percent reading m =
     (let (r, m') = get_cpu_percent_try reading m
      in (Inr (round1 (current_cpu m')), m'))"

text \<open>A run of sampling calls, one per reading, with the values they return.\<close>

fun sample_all :: "(exn + real) list \<Rightarrow> CPUMonitor \<Rightarrow> (exn + real) list \<times> CPUMonitor" where
  "sample_all [] m = ([], m)"
| "sample_all (r # rs) m =
     (let (v, m') = get_cpu_percent r m;
          (vs, m'') = sample_all rs m'
      in (v # vs, m''))"

subsection \<open>The registry of connected websockets\<close>

text \<open>
  A websocket is named by a number. What a socket does when it is asked is an argument:
  \<open>closed\<close> is the value of \<open>ws.closed\<close>, \<open>send_json\<close> is \<open>None\<close> when
  \<open>await ws.send_json(...)\<close> returns and the exception when it raises.
\<close>

type_synonym websocket = nat

record socket_io =
  closed :: bool
  send_json :: "exn option"

text \<open>
  The two JSON objects the server writes: a telemetry sample (\<open>cpu\<close>, \<open>per_cpu\<close>,
  \<open>memory_percent\<close>, \<open>timestamp\<close>) and a note event (\<open>note\<close>, \<open>index\<close>,
  \<open>timestamp\<close>).
\<close>

datatype message =
    Telemetry real "real list" real real
  | NoteStart string "int option" real

text \<open>
  The module's globals. \<open>connected_websockets\<close> is a Python set, kept as a list without
  repetition (\<open>add\<close> inserts, \<open>discard\<close> removes). Two fields record effects that
  leave the process: \<open>sent\<close> lists the objects written to sockets, \<open>discards\<close> the
  calls of \<open>connected_websockets.discard\<close>, both in order. \<open>note_callback\<close> tells
  whether \<open>test_workloads.note_callback\<close> has been assigned, \<open>threads_started\<close>
  counts the background threads started.
\<close>

record server =
  connected_websockets :: "websocket list"
  cpu_monitor :: CPUMonitor
  workload_thread :: "nat option"
  workload_active :: bool
  note_callback :: bool
  threads_started :: nat
  sent :: "(websocket \<times> message) list"
  discards :: "websocket list"

definition server_init :: server where
  "server_init =
     \<lparr>connected_websockets = [], cpu_monitor = CPUMonitor_init, workload_thread = None,
      workload_active = False, note_callback = False, threads_started = 0,
      sent = [], discards = []\<rparr>"

definition add :: "websocket \<Rightarrow> server \<Rightarrow> server" where
  "add ws s = s\<lparr>connected_websockets := List.insert ws (connected_websockets s)\<rparr>"

definition discard :: "websocket \<Rightarrow> server \<Rightarrow> server" where
  "discard ws s =
     s\<lparr>connected_websockets := removeAll ws (connected_websockets s),
       discards := discards s @ [ws]\<rparr>"

text \<open>\<open>try: body except Exception as e: handler\<close>.\<close>

definition try_except :: "exn + 'a \<Rightarrow> (exn \<Rightarrow> exn + 'a) \<Rightarrow> exn + 'a" where
  "try_except body handler = (case body of Inl e \<Rightarrow> handler e | Inr v \<Rightarrow> Inr v)"

subsection \<open>broadcast\_event\<close>

text \<open>\<open>if not ws.closed: await ws.send_json(event)\<close>, the body of the inner \<open>try\<close>.\<close>

definition send_event :: "socket_io \<Rightarrow> websocket \<Rightarrow> message \<Rightarrow> server \<Rightarrow> exn + server" where
  "send_event io ws event s =
     (if \<not> closed io then
        (case send_json io of
           Some e \<Rightarrow> Inl e
         | None \<Rightarrow> Inr (s\<lparr>sent := sent s @ [(ws, event)]\<rparr>))
      else Inr s)"

text \<open>
  \<open>for ws in clients\<close>: the send is tried, and the handler discards the socket (itself
  inside a \<open>try\<close> whose handler passes).
\<close>

fun broadcast_loop ::
  "(websocket \<Rightarrow> socket_io) \<Rightarrow> message \<Rightarrow> websocket list \<Rightarrow> server \<Rightarrow> exn + server" where
  "broadcast_loop io event [] s = Inr s"
| "broadcast_loop io event (ws # clients) s =
     (case try_except (send_event (io ws) ws event s)
             (\<lambda>e. try_except (Inr (discard ws s)) (\<lambda>_. Inr s)) of
        Inl e \<Rightarrow> Inl e
      | Inr s' \<Rightarrow> broadcast_loop io event clients s')"

text \<open>\<open>clients = list(connected_websockets); if not clients: return\<close>, then the loop.\<close>

definition broadcast_event :: "(websocket \<Rightarrow> socket_io) \<Rightarrow> message \<Rightarrow> server \<Rightarrow> exn + server" where
  "broadcast_event io event s =
     (let clients = connected_websockets s
      in if clients = [] then Inr s else broadcast_loop io event clients s)"

subsection \<open>cpu\_websocket\_handler\<close>

text \<open>
  What one turn of the \<open>while\<close> loop meets: the value of \<open>ws.closed\<close> at the loop
  head, the three reads of \<open>psutil\<close> (the first one inside \<open>get_cpu_percent\<close>), the
  clock and the outcome of \<open>await ws.send_json(data)\<close>.
\<close>

record tick =
  ws_closed :: bool
  cpu_reading :: "exn + real"
  per_cpu_reading :: "exn + real list"
  memory_reading :: "exn + real"
  time_now :: real
  ws_send_json :: "exn option"

text \<open>The body of the inner \<open>try\<close>, up to the \<open>sleep\<close>.\<close>

definition stream_once :: "websocket \<Rightarrow> tick \<Rightarrow> server \<Rightarrow> (exn + unit) \<times> server" where
  "stream_once ws t s =
     (let (v, m) = get_cpu_percent (cpu_reading t) (cpu_monitor s);
          s1 = s\<lparr>cpu_monitor := m\<rparr>
      in case v of
           Inl e \<Rightarrow> (Inl e, s1)
         | Inr cpu_percent \<Rightarrow>
             (case per_cpu_reading t of
                Inl e \<Rightarrow> (Inl e, s1)
              | Inr per_cpu_values \<Rightarrow>
                  (case memory_reading t of
                     Inl e \<Rightarrow> (Inl e, s1)
                   | Inr memory \<Rightarrow>
                       (let data = Telemetry cpu_percent (map round1 per_cpu_values)
                                     (round1 memory) (time_now t)
                        in case ws_send_json t of
                             Some e \<Rightarrow> (Inl e, s1)
                           | None \<Rightarrow> (Inr (), s1\<lparr>sent := sent s1 @ [(ws, data)]\<rparr>)))))"

text \<open>How the loop was left: \<open>ws.closed\<close> held at its head, or the handler's \<open>break\<close>.\<close>

datatype exit_path = ObservedClosed | LoopException exn

text \<open>
  \<open>while not ws.closed\<close> over the turns given. \<open>None\<close> says that the turns are used
  up and the loop is still running.
\<close>

fun stream_loop :: "websocket \<Rightarrow> tick list \<Rightarrow> server \<Rightarrow> exit_path option \<times> server" where
  "stream_loop ws [] s = (None, s)"
| "stream_loop ws (t # ts) s =
     (if ws_closed t then (Some ObservedClosed, s)
      else (case stream_once ws t s of
              (Inl e, s') \<Rightarrow> (Some (LoopException e), s')
            | (Inr u, s') \<Rightarrow> stream_loop ws ts s'))"

datatype session = Streaming | Closed exit_path

text \<open>The handler after \<open>ws.prepare\<close>: register, loop, and the \<open>finally\<close> clause.\<close>

definition cpu_websocket_handler :: "websocket \<Rightarrow> tick list \<Rightarrow> server \<Rightarrow> session \<times> server" where
  "cpu_websocket_handler ws ticks s =
     (case stream_loop ws ticks (add ws s) of
        (None, s') \<Rightarrow> (Streaming, s')
      | (Some p, s') \<Rightarrow> (Closed p, discard ws s'))"

subsection \<open>The workload handlers\<close>

datatype json = ErrorBody string | StatusBody string | ActiveBody bool

datatype response = Response (status_code: nat) (body: json)

text \<open>The names that backend/test\_workloads.py binds at its top level, in order.\<close>

definition test_workloads :: "string list" where
  "test_workloads =
     [''time'', ''psutil'', ''np'', ''Process'', ''cpu_count'', ''threading'',
      ''get_current_cpu'', ''bubble_sort_workload'', ''matrix_multiplication_workload'',
      ''heavy_computation_workload'', ''pathfinding_workload'', ''fibonacci_workload'',
      ''busy_loop_light'', ''busy_loop_medium'', ''busy_loop_heavy'', ''worker_thread'',
      ''calibrated_workload_30'', ''calibrated_workload_50'', ''calibrated_workload_70'',
      ''calibrated_workload_90'', ''run_all_workloads'']"

text \<open>
  What \<open>start_workload_handler\<close> meets: \<open>import test_workloads\<close> raises or gives a
  module, here the names it binds; \<open>workload_thread.start()\<close> returns or raises.
\<close>

record start_env =
  import_test_workloads :: "exn + string list"
  thread_start :: "exn option"

text \<open>The environment of the repository as it is: the import finds the file above.\<close>

definition repository_env :: start_env where
  "repository_env = \<lparr>import_test_workloads = Inr test_workloads, thread_start = None\<rparr>"

text \<open>\<open>except Exception as e: workload_active = False\<close>, and the answer with status 500.\<close>

definition start_workload_except :: "exn \<Rightarrow> server \<Rightarrow> response \<times> server" where
  "start_workload_except e s = (Response 500 (ErrorBody (str e)), s\<lparr>workload_active := False\<rparr>)"

text \<open>
  \<open>start_workload_handler\<close>. The attribute \<open>test_workloads.play_twinkle_twinkle\<close> is
  read after \<open>workload_active = True\<close>, as an argument of \<open>threading.Thread\<close>; a
  module without that name raises AttributeError there (its message is written here
  without the quotation marks that Python puts around the two names).
  \<open>asyncio.get_running_loop()\<close> returns, since the handler runs inside the loop, and
  the assignment of \<open>note_callback\<close> to the module cannot fail.
\<close>

definition start_workload_handler :: "start_env \<Rightarrow> server \<Rightarrow> response \<times> server" where
  "start_workload_handler env s =
     (case import_test_workloads env of
        Inl e \<Rightarrow> start_workload_except e s
      | Inr names \<Rightarrow>
          if workload_active s then (Response 400 (ErrorBody ''Workload already running''), s)
          else
            (let s1 = s\<lparr>note_callback := True\<rparr>;
                 s2 = s1\<lparr>workload_active := True\<rparr>
             in if ''play_twinkle_twinkle'' \<notin> set names then
                  start_workload_except
                    (AttributeError ''module test_workloads has no attribute play_twinkle_twinkle'') s2
                else
                  (let s3 = s2\<lparr>workload_thread := Some (threads_started s2)\<rparr>
                   in case thread_start env of
                        Some e \<Rightarrow> start_workload_except e s3
                      | None \<Rightarrow>
                          (Response 200 (StatusBody ''Twinkle Twinkle started''),
                           s3\<lparr>threads_started := Suc (threads_started s3)\<rparr>))))"

definition workload_status_handler :: "server \<Rightarrow> response \<times> server" where
  "workload_status_handler s = (Response 200 (ActiveBody (workload_active s)), s)"

text \<open>A run of requests to the two workload routes, with the answers.\<close>

datatype request = POST_workload_start start_env | GET_workload_status

fun handle :: "request \<Rightarrow> server \<Rightarrow> response \<times> server" where
  "handle (POST_workload_start env) s = start_workload_handler env s"
| "handle GET_workload_status s = workload_status_handler s"

fun serve :: "request list \<Rightarrow> server \<Rightarrow> response list \<times> server" where
  "serve [] s = ([], s)"
| "serve (q # qs) s =
     (let (r, s') = handle q s;
          (rs, s'') = serve qs s'
      in (r # rs, s''))"

subsection \<open>Predicates used in the statements\<close>

text \<open>A socket that takes the event, and one whose \<open>send_json\<close> raises.\<close>

definition delivered_to :: "(websocket \<Rightarrow> socket_io) \<Rightarrow> websocket \<Rightarrow> bool" where
  "delivered_to io ws = (\<not> closed (io ws) \<and> send_json (io ws) = None)"

definition send_raises :: "(websocket \<Rightarrow> socket_io) \<Rightarrow> websocket \<Rightarrow> bool" where
  "send_raises io ws = (\<not> closed (io ws) \<and> send_json (io ws) \<noteq> None)"

text \<open>
  Whether a turn of the streaming loop leaves it, and how: the socket is closed at the
  loop head, or the per-core read, the memory read or the push raises, in the order in
  which the loop body runs them. The aggregate read does not occur here.
\<close>

definition tick_exit :: "tick \<Rightarrow> exit_path option" where
  "tick_exit t =
     (if ws_closed t then Some ObservedClosed
      else case per_cpu_reading t of
             Inl e \<Rightarrow> Some (LoopException e)
           | Inr _ \<Rightarrow>
               (case memory_reading t of
                  Inl e \<Rightarrow> Some (LoopException e)
                | Inr _ \<Rightarrow>
                    (case ws_send_json t of
                       Some e \<Rightarrow> Some (LoopException e)
                     | None \<Rightarrow> None)))"

text \<open>The exit of the first turn that has one.\<close>

fun first_exit :: "tick list \<Rightarrow> exit_path option" where
  "first_exit [] = None"
| "first_exit (t # ts) = (case tick_exit t of Some p \<Rightarrow> Some p | None \<Rightarrow> first_exit ts)"

subsection \<open>Concrete inputs\<close>

text \<open>Socket 1 takes every message, the send to socket 2 raises, socket 3 is closed.\<close>

definition three_sockets :: "websocket \<Rightarrow> socket_io" where
  "three_sockets ws =
     (if ws = 2 then \<lparr>closed = False, send_json = Some (ConnectionResetError ''reset'')\<rparr>
      else if ws = 3 then \<lparr>closed = True, send_json = None\<rparr>
      else \<lparr>closed = False, send_json = None\<rparr>)"

definition note_event :: message where
  "note_event = NoteStart ''C4'' (Some 0) 0"

text \<open>A turn whose per-core read raises, one whose aggregate read raises, a closed one.\<close>

definition read_error_tick :: tick where
  "read_error_tick =
     \<lparr>ws_closed = False, cpu_reading = Inr 50,
      per_cpu_reading = Inl (OSError ''per-cpu read''),
      memory_reading = Inr 40, time_now = 0, ws_send_json = None\<rparr>"

definition sampler_error_tick :: tick where
  "sampler_error_tick =
     \<lparr>ws_closed = False, cpu_reading = Inl (OSError ''cpu read''),
      per_cpu_reading = Inr [10, 20],
      memory_reading = Inr 40, time_now = 0, ws_send_json = None\<rparr>"

definition closed_tick :: tick where
  "closed_tick =
     \<lparr>ws_closed = True, cpu_reading = Inr 50, per_cpu_reading = Inr [10, 20],
      memory_reading = Inr 40, time_now = 1, ws_send_json = None\<rparr>"

section \<open>The sampler\<close>

subsection \<open>Auxiliary facts\<close>

lemma round1_bounds:
  assumes "0 \<le> x" and "x \<le> 100"
  shows "0 \<le> round1 x \<and> round1 x \<le> 100"
proof -
  define f where "f = \<lfloor>x * 10\<rfloor>"
  have f0: "0 \<le> f" using assms by (simp add: f_def)
  have f1: "f \<le> 1000" using assms by (simp add: f_def floor_le_iff)
  have top: "x * 10 - of_int f = 0" if "f = 1000"
  proof -
    from that have "1000 \<le> x * 10" unfolding f_def by linarith
    with assms that show ?thesis by simp
  qed
  from f1 consider "f < 1000" | "f = 1000" by linarith
  then show ?thesis
  proof cases
    case 1
    then show ?thesis using f0 unfolding round1_def Let_def f_def[symmetric] by auto
  next
    case 2
    then show ?thesis using top unfolding round1_def Let_def f_def[symmetric] by simp
  qed
qed

lemma get_cpu_percent_value:
  "fst (get_cpu_percent r m) = Inr (round1 (current_cpu (snd (get_cpu_percent r m))))"
  by (simp add: get_cpu_percent_def split: prod.splits)

lemma get_cpu_percent_Inl: "get_cpu_percent (Inl e) m = (Inr (round1 (current_cpu m)), m)"
  by (simp add: get_cpu_percent_def get_cpu_percent_try_def)

lemma get_cpu_percent_range:
  assumes "0 \<le> current_cpu m \<and> current_cpu m \<le> 100"
  shows "0 \<le> current_cpu (snd (get_cpu_percent r m)) \<and>
         current_cpu (snd (get_cpu_percent r m)) \<le> 100"
  using assms
  by (auto simp: get_cpu_percent_def get_cpu_percent_try_def Let_def split: sum.splits)

lemma sample_all_range:
  assumes "0 \<le> current_cpu m \<and> current_cpu m \<le> 100"
    and "v \<in> set (fst (sample_all rs m))"
  shows "\<exists>x. v = Inr x \<and> 0 \<le> x \<and> x \<le> 100"
  using assms
proof (induction rs arbitrary: m)
  case Nil
  then show ?case by simp
next
  case (Cons r rs)
  let ?m' = "snd (get_cpu_percent r m)"
  have inv': "0 \<le> current_cpu ?m' \<and> current_cpu ?m' \<le> 100"
    by (rule get_cpu_percent_range) (rule Cons.prems(1))
  from Cons.prems(2)
  have "v = fst (get_cpu_percent r m) \<or> v \<in> set (fst (sample_all rs ?m'))"
    by (auto split: prod.splits)
  then show ?case
  proof
    assume "v = fst (get_cpu_percent r m)"
    then have "v = Inr (round1 (current_cpu ?m'))" by (simp add: get_cpu_percent_value)
    with inv' round1_bounds show ?thesis by blast
  next
    assume "v \<in> set (fst (sample_all rs ?m'))"
    with inv' show ?thesis by (rule Cons.IH)
  qed
qed

lemma two_samples:
  "fst (get_cpu_percent (Inr 120) (snd (get_cpu_percent (Inr 50) CPUMonitor_init))) = Inr (867 / 10)"
  by (simp add: get_cpu_percent_def get_cpu_percent_try_def CPUMonitor_init_def weights_def
      truediv_def weighted_sum_def round1_def Let_def upt_rec)

subsection \<open>Claims about the sampler\<close>

text \<open>
  C4, as the code has it. For a full window of \<open>K = 10\<close> readings the weights run from
  \<open>1 + 0/K = 1\<close> for the oldest to \<open>1 + (K-1)/K = 19/10\<close> for the newest: the newest
  weight is 1.9 times the oldest, not twice.
\<close>

theorem weights_full_window:
  "weights (buffer_size CPUMonitor_init) 10 =
     Inr [1, 11 / 10, 6 / 5, 13 / 10, 7 / 5, 3 / 2, 8 / 5, 17 / 10, 9 / 5, 19 / 10] \<and>
   map_sum id (\<lambda>ws. (hd ws, last ws, last ws = 19 / 10 * hd ws)) (weights (buffer_size CPUMonitor_init) 10) =
     Inr (1, 19 / 10, True)"
  by (simp add: weights_def upt_rec CPUMonitor_init_def)

text \<open>
  C4 as stated fails: for the full window of ten readings the newest weight is not
  twice the oldest.
\<close>

theorem weights_not_double:
  "map_sum id (\<lambda>ws. last ws = 2 * hd ws) (weights (buffer_size CPUMonitor_init) 10) = Inr False"
  by (simp add: weights_def upt_rec CPUMonitor_init_def)

text \<open>
  C6. From the initial monitor, whatever the sequence of readings and read failures,
  every sampling call returns a number between 0 and 100.
\<close>

theorem sample_all_within_0_100:
  assumes "v \<in> set (fst (sample_all readings CPUMonitor_init))"
  shows "\<exists>x. v = Inr x \<and> 0 \<le> x \<and> x \<le> 100"
proof -
  have "0 \<le> current_cpu CPUMonitor_init \<and> current_cpu CPUMonitor_init \<le> 100"
    by (simp add: CPUMonitor_init_def)
  from this assms show ?thesis by (rule sample_all_range)
qed

theorem sample_all_within_0_100_witness:
  "Inr (867 / 10) \<in> set (fst (sample_all [Inr 50, Inl (OSError ''read''), Inr 120] CPUMonitor_init)) \<and>
   (\<exists>x. (Inr (867 / 10) :: exn + real) = Inr x \<and> 0 \<le> x \<and> x \<le> 100)"
proof -
  have mem: "Inr (867 / 10) \<in> set (fst (sample_all [Inr 50, Inl (OSError ''read''), Inr 120] CPUMonitor_init))"
    using two_samples
    by (simp add: get_cpu_percent_Inl split: prod.splits) (metis fst_conv snd_conv)
  from sample_all_within_0_100[OF mem] mem show ?thesis by simp
qed

text \<open>
  C7. When the read of the operating system raises, the sampling call raises nothing:
  it returns the rounded stored value, which is the value that the previous call
  returned (and 0.0 when there was no previous call).
\<close>

theorem get_cpu_percent_read_failure:
  "fst (get_cpu_percent (Inl e) m) = Inr (round1 (current_cpu m)) \<and>
   fst (get_cpu_percent (Inl e) (snd (get_cpu_percent r m0))) = fst (get_cpu_percent r m0) \<and>
   fst (get_cpu_percent (Inl e) CPUMonitor_init) = Inr 0"
proof -
  have "round1 0 = 0" by (simp add: round1_def)
  then show ?thesis
    by (simp add: get_cpu_percent_Inl get_cpu_percent_value CPUMonitor_init_def)
qed

text \<open>
  C10. When the read of the operating system raises, the sampling call leaves the whole
  monitor as it was (window and stored value), so a second failing call returns what the
  first returned.
\<close>

theorem get_cpu_percent_failure_keeps_state:
  "snd (get_cpu_percent (Inl e) m) = m \<and>
   fst (get_cpu_percent (Inl e') (snd (get_cpu_percent (Inl e) m))) = fst (get_cpu_percent (Inl e) m)"
  by (simp add: get_cpu_percent_Inl)


section \<open>The registry and the broadcast\<close>

subsection \<open>Auxiliary facts\<close>

lemma broadcast_loop_result:
  "broadcast_loop io event clients s =
     Inr (s\<lparr>connected_websockets :=
              filter (\<lambda>w. w \<notin> set (filter (send_raises io) clients)) (connected_websockets s),
            sent := sent s @ map (\<lambda>w. (w, event)) (filter (delivered_to io) clients),
            discards := discards s @ filter (send_raises io) clients\<rparr>)"
proof (induction clients arbitrary: s)
  case Nil
  show ?case by simp
next
  case (Cons ws clients)
  show ?case
  proof (cases "closed (io ws)")
    case True
    then show ?thesis
      by (simp add: Cons.IH try_except_def send_event_def delivered_to_def send_raises_def)
  next
    case False
    show ?thesis
    proof (cases "send_json (io ws)")
      case None
      with False show ?thesis
        by (simp add: Cons.IH try_except_def send_event_def delivered_to_def send_raises_def)
    next
      case (Some e)
      have "filter (\<lambda>w. w \<notin> set (filter (send_raises io) clients)) (removeAll ws xs)
          = filter (\<lambda>w. w \<noteq> ws \<and> w \<notin> set (filter (send_raises io) clients)) xs" for xs
        by (induction xs) auto
      with False Some show ?thesis
        by (simp add: Cons.IH try_except_def send_event_def delivered_to_def send_raises_def
            discard_def)
    qed
  qed
qed

lemma broadcast_event_result:
  "broadcast_event io event s =
     Inr (s\<lparr>connected_websockets := filter (\<lambda>w. \<not> send_raises io w) (connected_websockets s),
            sent := sent s @ map (\<lambda>w. (w, event)) (filter (delivered_to io) (connected_websockets s)),
            discards := discards s @ filter (send_raises io) (connected_websockets s)\<rparr>)"
proof (cases "connected_websockets s = []")
  case True
  then show ?thesis by (simp add: broadcast_event_def)
next
  case False
  have flt: "filter (\<lambda>w. w \<notin> set (filter (send_raises io) xs)) xs
           = filter (\<lambda>w. \<not> send_raises io w) xs" for xs
    by (rule filter_cong) auto
  have "broadcast_event io event s = broadcast_loop io event (connected_websockets s) s"
    using False by (simp add: broadcast_event_def)
  then show ?thesis
    by (simp only: broadcast_loop_result flt)
qed

subsection \<open>Claims about the broadcast\<close>

text \<open>
  C1, as the code has it. For every registry, every event and every behaviour of the
  sockets, \<open>broadcast_event\<close> returns without raising. A registered socket that is not
  closed and whose send returns receives the event and stays registered. A registered
  socket that is not closed and whose send raises is unregistered. A registered socket
  that is closed is skipped: nothing is sent to it and it stays registered. With an empty
  registry nothing changes.
\<close>

theorem broadcast_event_isolation:
  "\<exists>s'. broadcast_event io event s = Inr s' \<and>
     (\<forall>ws \<in> set (connected_websockets s).
        (\<not> closed (io ws) \<and> send_json (io ws) = None \<longrightarrow>
           (ws, event) \<in> set (sent s') \<and> ws \<in> set (connected_websockets s')) \<and>
        (\<not> closed (io ws) \<and> send_json (io ws) \<noteq> None \<longrightarrow>
           ws \<notin> set (connected_websockets s')) \<and>
        (closed (io ws) \<longrightarrow>
           (ws, event) \<notin> set (sent s') - set (sent s) \<and> ws \<in> set (connected_websockets s'))) \<and>
     (connected_websockets s = [] \<longrightarrow> s' = s)"
  by (auto simp: broadcast_event_result send_raises_def delivered_to_def)

theorem broadcast_event_isolation_witness:
  "set (connected_websockets (add 3 (add 2 (add 1 server_init)))) = {1, 2, 3} \<and>
   \<not> closed (three_sockets 1) \<and> send_json (three_sockets 1) = None \<and>
   \<not> closed (three_sockets 2) \<and> send_json (three_sockets 2) \<noteq> None \<and>
   closed (three_sockets 3) \<and>
   (\<exists>s'. broadcast_event three_sockets note_event (add 3 (add 2 (add 1 server_init))) = Inr s' \<and>
      (1, note_event) \<in> set (sent s') \<and>
      1 \<in> set (connected_websockets s') \<and>
      2 \<notin> set (connected_websockets s') \<and>
      3 \<in> set (connected_websockets s') \<and>
      (3, note_event) \<notin> set (sent s'))"
proof -
  let ?s = "add 3 (add 2 (add 1 server_init))"
  have reg: "set (connected_websockets ?s) = {1, 2, 3}"
    by (auto simp: add_def server_init_def)
  have nosent: "sent ?s = []"
    by (simp add: add_def server_init_def)
  have io: "\<not> closed (three_sockets 1)" "send_json (three_sockets 1) = None"
    "\<not> closed (three_sockets 2)" "send_json (three_sockets 2) \<noteq> None"
    "closed (three_sockets 3)"
    by (simp_all add: three_sockets_def)
  from broadcast_event_isolation[of three_sockets note_event ?s]
  obtain s' where s': "broadcast_event three_sockets note_event ?s = Inr s'"
    and all: "\<forall>ws \<in> set (connected_websockets ?s).
        (\<not> closed (three_sockets ws) \<and> send_json (three_sockets ws) = None \<longrightarrow>
           (ws, note_event) \<in> set (sent s') \<and> ws \<in> set (connected_websockets s')) \<and>
        (\<not> closed (three_sockets ws) \<and> send_json (three_sockets ws) \<noteq> None \<longrightarrow>
           ws \<notin> set (connected_websockets s')) \<and>
        (closed (three_sockets ws) \<longrightarrow>
           (ws, note_event) \<notin> set (sent s') - set (sent ?s) \<and> ws \<in> set (connected_websockets s'))"
    by blast
  from all reg io nosent
  have "(1, note_event) \<in> set (sent s') \<and> 1 \<in> set (connected_websockets s') \<and>
        2 \<notin> set (connected_websockets s') \<and> 3 \<in> set (connected_websockets s') \<and>
        (3, note_event) \<notin> set (sent s')"
    by simp
  with s' reg io show ?thesis by blast
qed

text \<open>
  C1 as stated fails for a closed connection: a registry that holds the closed socket 3
  is the same after the broadcast, so the socket is still registered.
\<close>

theorem broadcast_event_keeps_closed_socket:
  "closed (three_sockets 3) \<and>
   connected_websockets (add 3 server_init) = [3] \<and>
   broadcast_event three_sockets note_event (add 3 server_init) = Inr (add 3 server_init)"
  by (simp add: broadcast_event_def try_except_def send_event_def three_sockets_def add_def
      server_init_def)

section \<open>The streaming session\<close>

subsection \<open>Auxiliary facts\<close>

lemma get_cpu_percent_returns: "\<exists>v m'. get_cpu_percent r m = (Inr v, m')"
  by (simp add: get_cpu_percent_def split: prod.splits)

lemma stream_once_exit:
  assumes "\<not> ws_closed t"
  shows "fst (stream_once ws t s) =
           (case tick_exit t of Some (LoopException e) \<Rightarrow> Inl e | _ \<Rightarrow> Inr ())"
  using assms get_cpu_percent_returns[of "cpu_reading t" "cpu_monitor s"]
  by (auto simp: stream_once_def tick_exit_def Let_def split: sum.splits option.splits)

lemma stream_once_discards: "discards (snd (stream_once ws t s)) = discards s"
  using get_cpu_percent_returns[of "cpu_reading t" "cpu_monitor s"]
  by (auto simp: stream_once_def Let_def split: sum.splits option.splits)

lemma stream_loop_exit: "fst (stream_loop ws ticks s) = first_exit ticks"
proof (induction ticks arbitrary: s)
  case Nil
  show ?case by simp
next
  case (Cons t ticks)
  show ?case
  proof (cases "ws_closed t")
    case True
    then show ?thesis by (simp add: tick_exit_def)
  next
    case False
    obtain r s' where so: "stream_once ws t s = (r, s')"
      by (cases "stream_once ws t s")
    from stream_once_exit[OF False, of ws s] so
    have r: "r = (case tick_exit t of Some (LoopException e) \<Rightarrow> Inl e | _ \<Rightarrow> Inr ())"
      by simp
    have open_exit: "tick_exit t \<noteq> Some ObservedClosed"
      using False by (auto simp: tick_exit_def split: sum.splits option.splits)
    show ?thesis
    proof (cases "tick_exit t")
      case None
      with r so False Cons.IH[of s'] show ?thesis by simp
    next
      case (Some p)
      with open_exit obtain e where "p = LoopException e" by (cases p) auto
      with Some r so False show ?thesis by simp
    qed
  qed
qed

lemma stream_loop_discards: "discards (snd (stream_loop ws ticks s)) = discards s"
proof (induction ticks arbitrary: s)
  case Nil
  show ?case by simp
next
  case (Cons t ticks)
  obtain r s' where so: "stream_once ws t s = (r, s')"
    by (cases "stream_once ws t s")
  from stream_once_discards[of ws t s] so have "discards s' = discards s" by simp
  with so Cons.IH[of s'] show ?case by (auto split: sum.splits)
qed

lemma tick_exits:
  "tick_exit read_error_tick = Some (LoopException (OSError ''per-cpu read''))"
  "tick_exit sampler_error_tick = None"
  "tick_exit closed_tick = Some ObservedClosed"
  by (simp_all add: tick_exit_def read_error_tick_def sampler_error_tick_def closed_tick_def)

subsection \<open>Claims about the session\<close>

text \<open>
  C2, as the code has it. The session is closed exactly when some turn of its loop has
  an exit: the connection is observed closed at the loop head, or the per-core read, the
  memory read or the push raises. It closes at the first such turn, so one exception is
  enough; until then it is streaming. A failure of the aggregate read is taken up by
  the sampler and is not an exit, however often it happens.
\<close>

theorem cpu_websocket_handler_exit:
  "fst (cpu_websocket_handler ws ticks s) =
     (case first_exit ticks of None \<Rightarrow> Streaming | Some p \<Rightarrow> Closed p)"
proof -
  obtain r s' where sl: "stream_loop ws ticks (add ws s) = (r, s')"
    by (cases "stream_loop ws ticks (add ws s)")
  from stream_loop_exit[of ws ticks "add ws s"] sl have "r = first_exit ticks" by simp
  with sl show ?thesis
    by (simp add: cpu_websocket_handler_def split: option.splits)
qed

theorem cpu_websocket_handler_exit_witness:
  "fst (cpu_websocket_handler 1 [sampler_error_tick, sampler_error_tick] server_init) = Streaming \<and>
   fst (cpu_websocket_handler 1 [sampler_error_tick, sampler_error_tick, closed_tick] server_init)
     = Closed ObservedClosed"
  using cpu_websocket_handler_exit[of 1 "[sampler_error_tick, sampler_error_tick]" server_init]
    cpu_websocket_handler_exit[of 1 "[sampler_error_tick, sampler_error_tick, closed_tick]" server_init]
  by (simp add: tick_exits)

text \<open>
  C2 as stated fails: one turn whose per-core read raises, on a connection that is not
  closed and whose push would not fail, closes the session.
\<close>

theorem single_read_error_closes_session:
  "\<not> ws_closed read_error_tick \<and> ws_send_json read_error_tick = None \<and>
   fst (cpu_websocket_handler 1 [read_error_tick] server_init)
     = Closed (LoopException (OSError ''per-cpu read''))"
proof -
  have "get_cpu_percent (Inr 50) CPUMonitor_init
          = (Inr 50, \<lparr>current_cpu = 50, cpu_history = [50], buffer_size = 10\<rparr>)"
    by (simp add: get_cpu_percent_def get_cpu_percent_try_def CPUMonitor_init_def weights_def
        truediv_def weighted_sum_def round1_def Let_def upt_rec)
  then show ?thesis
    by (simp add: cpu_websocket_handler_def stream_once_def read_error_tick_def add_def
        server_init_def)
qed

text \<open>
  C8. Whatever the exit path, a session that has ended has called \<open>discard\<close> for its
  handle exactly once more than had been called before it began, and its handle is not
  in the registry.
\<close>

theorem cpu_websocket_handler_unregisters_once:
  assumes "fst (cpu_websocket_handler ws ticks s) = Closed p"
  shows "ws \<notin> set (connected_websockets (snd (cpu_websocket_handler ws ticks s))) \<and>
         count_list (discards (snd (cpu_websocket_handler ws ticks s))) ws
           = Suc (count_list (discards s) ws)"
proof -
  obtain r s' where sl: "stream_loop ws ticks (add ws s) = (r, s')"
    by (cases "stream_loop ws ticks (add ws s)")
  from stream_loop_discards[of ws ticks "add ws s"] sl
  have d: "discards s' = discards s" by (simp add: add_def)
  from assms sl obtain q where "r = Some q"
    by (cases r) (auto simp: cpu_websocket_handler_def)
  with sl d show ?thesis
    by (simp add: cpu_websocket_handler_def discard_def)
qed

theorem cpu_websocket_handler_unregisters_once_witness:
  "fst (cpu_websocket_handler 1 [sampler_error_tick, closed_tick] server_init) = Closed ObservedClosed \<and>
   1 \<notin> set (connected_websockets (snd (cpu_websocket_handler 1 [sampler_error_tick, closed_tick] server_init))) \<and>
   count_list (discards (snd (cpu_websocket_handler 1 [sampler_error_tick, closed_tick] server_init))) 1
     = Suc (count_list (discards server_init) 1)"
proof -
  obtain r s' where sl:
    "stream_loop 1 [sampler_error_tick, closed_tick] (add 1 server_init) = (r, s')"
    by (cases "stream_loop 1 [sampler_error_tick, closed_tick] (add 1 server_init)")
  from stream_loop_exit[of 1 "[sampler_error_tick, closed_tick]" "add 1 server_init"] sl
  have "r = Some ObservedClosed" by (simp add: tick_exits)
  with sl have c: "fst (cpu_websocket_handler 1 [sampler_error_tick, closed_tick] server_init)
      = Closed ObservedClosed"
    by (simp add: cpu_websocket_handler_def)
  from cpu_websocket_handler_unregisters_once[OF c] c show ?thesis by simp
qed

section \<open>The workload routes\<close>

subsection \<open>Auxiliary facts\<close>

lemma test_workloads_no_target: "''play_twinkle_twinkle'' \<notin> set test_workloads"
  by (simp add: test_workloads_def)

text \<open>The conflict answer: an active flag, with the module imported.\<close>

lemma start_workload_conflict:
  assumes "workload_active s" and "import_test_workloads env = Inr names"
  shows "start_workload_handler env s =
           (Response 400 (ErrorBody ''Workload already running''), s)"
  using assms by (simp add: start_workload_handler_def)

text \<open>The start, for a module that has the target and a thread that starts.\<close>

lemma start_workload_started:
  assumes "\<not> workload_active s" and "import_test_workloads env = Inr names"
    and "''play_twinkle_twinkle'' \<in> set names" and "thread_start env = None"
  shows "start_workload_handler env s =
     (Response 200 (StatusBody ''Twinkle Twinkle started''),
      s\<lparr>note_callback := True, workload_active := True,
        workload_thread := Some (threads_started s),
        threads_started := Suc (threads_started s)\<rparr>)"
  using assms by (simp add: start_workload_handler_def)

text \<open>
  With the module that the repository has, a start request that finds the flag false is
  answered 500, whatever the thread would do: the flag is false again afterwards and no
  thread was started.
\<close>

lemma start_workload_repository_fails:
  assumes "\<not> workload_active s" and "import_test_workloads env = Inr test_workloads"
  shows "fst (start_workload_handler env s) =
           Response 500 (ErrorBody ''module test_workloads has no attribute play_twinkle_twinkle'') \<and>
         \<not> workload_active (snd (start_workload_handler env s)) \<and>
         threads_started (snd (start_workload_handler env s)) = threads_started s"
  using assms
  by (simp add: start_workload_handler_def test_workloads_no_target start_workload_except_def)

subsection \<open>Claims about the workload routes\<close>

text \<open>
  C9, at the input where the code departs from it. On a fresh server, with the module
  that the repository has, a start request finds the flag false, sets it, and then reads
  \<open>test_workloads.play_twinkle_twinkle\<close>, which the module does not bind: the handler
  answers 500 with an error, the flag is false again and no thread was started.
\<close>

theorem start_workload_handler_repository:
  "\<not> workload_active server_init \<and>
   start_workload_handler repository_env server_init =
     (Response 500 (ErrorBody ''module test_workloads has no attribute play_twinkle_twinkle''),
      server_init\<lparr>note_callback := True\<rparr>) \<and>
   \<not> workload_active (snd (start_workload_handler repository_env server_init)) \<and>
   threads_started (snd (start_workload_handler repository_env server_init)) = 0"
  by (simp add: start_workload_handler_def repository_env_def test_workloads_no_target
      start_workload_except_def server_init_def)

end
